theory Spec2Isabelle
  imports Main "HOL-Library.Sublist"
begin

section \<open>Python primitives used by app.py\<close>

text \<open>
  Python strings are modelled as \<open>string\<close>; the newline character of the source's
  \<^verbatim>\<open>"\n"\<close> literals is \<open>CHR 0x0A\<close>.
\<close>

definition nl :: string where
  "nl = [CHR 0x0A]"

text \<open>\<^verbatim>\<open>sep.join(xs)\<close>\<close>

fun join :: "string \<Rightarrow> string list \<Rightarrow> string" where
  "join sep [] = []"
| "join sep [x] = x"
| "join sep (x # y # ys) = x @ sep @ join sep (y # ys)"

text \<open>
  \<^verbatim>\<open>xs[i:]\<close> for a Python integer \<open>i\<close>: a negative start counts from the end and is
  clamped at the front of the list; \<open>-0\<close> is \<open>0\<close>, so \<^verbatim>\<open>xs[-0:]\<close> is the whole list.
\<close>

definition slice_from :: "int \<Rightarrow> 'a list \<Rightarrow> 'a list" where
  "slice_from i xs =
     (if i < 0 then drop (nat (int (length xs) + i)) xs else drop (nat i) xs)"

section \<open>ConversationBuffer (app.py, lines 128-139)\<close>

text \<open>A turn is the dict \<^verbatim>\<open>{"role": role, "content": content}\<close>.\<close>

record turn =
  role :: string
  content :: string

record ConversationBuffer =
  buffer :: "turn list"
  max_turns :: int

text \<open>\<^verbatim>\<open>__init__(self, max_turns=5)\<close>\<close>

definition ConversationBuffer_init :: "int \<Rightarrow> ConversationBuffer" where
  "ConversationBuffer_init m = \<lparr>buffer = [], max_turns = m\<rparr>"

definition default_max_turns :: int where
  "default_max_turns = 5"

text \<open>
  \<^verbatim>\<open>
  def add_message(self, role, content):
      self.buffer.append({"role": role, "content": content})
      if len(self.buffer) > self.max_turns * 2:
          self.buffer = self.buffer[-self.max_turns * 2:]
  \<close>
\<close>

definition add_message :: "ConversationBuffer \<Rightarrow> string \<Rightarrow> string \<Rightarrow> ConversationBuffer" where
  "add_message self r c =
     (let appended = buffer self @ [\<lparr>role = r, content = c\<rparr>]
      in if int (length appended) > max_turns self * 2
         then self\<lparr>buffer := slice_from (- max_turns self * 2) appended\<rparr>
         else self\<lparr>buffer := appended\<rparr>)"

text \<open>A sequence of \<open>add_message\<close> calls, oldest first, each given as (role, content).\<close>

fun add_messages :: "ConversationBuffer \<Rightarrow> (string \<times> string) list \<Rightarrow> ConversationBuffer" where
  "add_messages self [] = self"
| "add_messages self ((r, c) # rest) = add_messages (add_message self r c) rest"

text \<open>
  \<^verbatim>\<open>
  def get_context(self):
      return "\n".join([f"{msg['role']}: {msg['content']}" for msg in self.buffer])
  \<close>
\<close>

definition render_turn :: "turn \<Rightarrow> string" where
  "render_turn msg = role msg @ '': '' @ content msg"

definition get_context :: "ConversationBuffer \<Rightarrow> string" where
  "get_context self = join nl (map render_turn (buffer self))"

section \<open>Exceptions, effects and the session\<close>

text \<open>
  Every external call of app.py may raise. The two handlers of \<open>process_document\<close>
  distinguish \<^verbatim>\<open>ImportError\<close> from every other \<^verbatim>\<open>Exception\<close>; the payload is \<^verbatim>\<open>str(e)\<close>.
\<close>

datatype exn = ImportError string | Exception string

fun str_exn :: "exn \<Rightarrow> string" where
  "str_exn (ImportError m) = m"
| "str_exn (Exception m) = m"

text \<open>
  What the program does to the outside, in program order: Streamlit output and the
  temporary file of an ingestion.
\<close>

datatype effect =
    StError string
  | StWarning string
  | StInfo string
  | StCode string
  | StSuccess string
  | StChatMessage string string
  | TempFileCreated string
  | TempFileWrite string string
  | TempFileUnlinked string

text \<open>An entry of \<^verbatim>\<open>st.session_state.messages\<close>.\<close>

record message =
  msg_role :: string
  msg_content :: string
  msg_time :: string

text \<open>The keys \<^verbatim>\<open>vectorstore\<close>, \<^verbatim>\<open>last_uploaded_file\<close>, \<^verbatim>\<open>messages\<close> and \<^verbatim>\<open>conversation_buffer\<close> of
  \<^verbatim>\<open>st.session_state\<close>.\<close>

record 'vs session_state =
  session_vectorstore :: "'vs option"
  session_last_uploaded_file :: "string option"
  session_messages :: "message list"
  session_conversation_buffer :: ConversationBuffer

text \<open>
  The mutable world: the session, the effects so far, the files of the working directory
  (name and creation time, in microseconds) and the current time in microseconds.
\<close>

record 'vs world =
  session_state :: "'vs session_state"
  effects :: "effect list"
  files :: "(string \<times> int) list"
  clock :: int

definition st :: "effect \<Rightarrow> 'vs world \<Rightarrow> 'vs world" where
  "st e w = w\<lparr>effects := effects w @ [e]\<rparr>"

text \<open>
  The reply object of \<^verbatim>\<open>model.generate_content\<close>, by the three shapes the source probes:
  a \<^verbatim>\<open>text\<close> attribute (whose getter may itself raise something other than
  \<^verbatim>\<open>AttributeError\<close>, which \<^verbatim>\<open>hasattr\<close> lets through), a \<^verbatim>\<open>parts\<close> sequence, or neither
  (then \<^verbatim>\<open>str(response)\<close>).
\<close>

datatype response =
    WithText "exn + string"
  | WithParts "(exn + string) list"
  | Opaque string

text \<open>
  The external collaborators, as parameters: the temporary-file layer, the three
  parsers, the text splitter, the FAISS index with its embeddings, pickling, the LLM and
  the formatting of the wall clock. \<open>'vs\<close> is the type of a vectorstore.
\<close>

record 'vs env =
  named_temporary_file :: "string \<Rightarrow> exn + string"
  temp_write :: "string \<Rightarrow> string \<Rightarrow> exn option"
  pdf_pages :: "string \<Rightarrow> exn + string list"
  unstructured_load :: "string \<Rightarrow> exn + string list"
  text_readlines :: "string \<Rightarrow> exn + string list"
  split_text :: "nat \<Rightarrow> nat \<Rightarrow> string \<Rightarrow> exn + string list"
  from_texts :: "string list \<Rightarrow> exn + 'vs"
  add_texts :: "'vs \<Rightarrow> string list \<Rightarrow> exn + 'vs"
  os_unlink :: "string \<Rightarrow> exn option"
  pickle_dump :: "'vs \<Rightarrow> exn option"
  similarity_search :: "'vs \<Rightarrow> string \<Rightarrow> nat \<Rightarrow> exn + string list"
  generate_content :: "string \<Rightarrow> exn + response"
  strftime_HM :: "int \<Rightarrow> string"

text \<open>
  \<^verbatim>\<open>def get_current_time(): return datetime.now().strftime("%H:%M")\<close>
  Every call reads the clock anew: \<open>now\<close> is what \<^verbatim>\<open>datetime.now()\<close> returns at that call,
  so two calls are given two readings.
\<close>

definition get_current_time :: "'vs env \<Rightarrow> int \<Rightarrow> string" where
  "get_current_time env now = strftime_HM env now"

section \<open>Document ingestion (app.py, lines 50-116)\<close>

text \<open>An uploaded file: its name and its bytes; \<^verbatim>\<open>file.size\<close> is the number of bytes.\<close>

record uploaded_file =
  name :: string
  data :: string

definition file_size :: "uploaded_file \<Rightarrow> int" where
  "file_size file = int (length (data file))"

definition MAX_FILE_SIZE :: int where
  "MAX_FILE_SIZE = 15 * 1024 * 1024"

definition chunk_size :: nat where
  "chunk_size = 3 * 1024 * 1024"

definition batch_size :: nat where
  "batch_size = 1000"

text \<open>\<^verbatim>\<open>p.rfind(c)\<close>: the index of the last occurrence, or \<open>-1\<close>.\<close>

definition rfind :: "char \<Rightarrow> string \<Rightarrow> int" where
  "rfind c p =
     (if c \<in> set p
      then int (length p) - 1 - int (length (takeWhile (\<lambda>x. x \<noteq> c) (rev p)))
      else - 1)"

text \<open>
  \<^verbatim>\<open>os.path.splitext\<close> (posixpath): the extension starts at the last dot of the last path
  component, unless only dots precede it there.
\<close>

definition splitext :: "string \<Rightarrow> string \<times> string" where
  "splitext p =
     (let sepIndex = rfind (CHR ''/'') p;
          dotIndex = rfind (CHR ''.'') p
      in if dotIndex > sepIndex
            \<and> filter (\<lambda>c. c \<noteq> CHR ''.'')
                 (take (nat (dotIndex - (sepIndex + 1))) (drop (nat (sepIndex + 1)) p)) \<noteq> []
         then (take (nat dotIndex) p, drop (nat dotIndex) p)
         else (p, []))"

text \<open>
  \<^verbatim>\<open>
  while True:
      chunk = file.read(chunk_size)
      if not chunk:
          break
      temp_file.write(chunk)
  \<close>
  \<open>read_chunks\<close> is the sequence of chunks that the reads return; \<open>write_chunks\<close> writes
  them in order and stops at the first write that raises.
\<close>

function read_chunks :: "nat \<Rightarrow> string \<Rightarrow> string list" where
  "read_chunks n bytes =
     (if take n bytes = [] then [] else take n bytes # read_chunks n (drop n bytes))"
  by pat_completeness auto
termination
  by (relation "measure (\<lambda>(n, bytes). length bytes)") auto

fun write_chunks :: "'vs env \<Rightarrow> string \<Rightarrow> string list \<Rightarrow> 'vs world \<Rightarrow> exn option \<times> 'vs world" where
  "write_chunks env path [] w = (None, w)"
| "write_chunks env path (chunk # rest) w =
     (case temp_write env path chunk of
        Some e \<Rightarrow> (Some e, w)
      | None \<Rightarrow> write_chunks env path rest (st (TempFileWrite path chunk) w))"

text \<open>
  Lines 58-66: the \<^verbatim>\<open>with tempfile.NamedTemporaryFile(...)\<close> block. \<open>Inr path\<close> is the value
  that \<^verbatim>\<open>temp_file_path\<close> gets on the block's last line; after a raise it is still \<^verbatim>\<open>None\<close>.
\<close>

definition copy_to_temp :: "'vs env \<Rightarrow> uploaded_file \<Rightarrow> 'vs world \<Rightarrow> (exn + string) \<times> 'vs world" where
  "copy_to_temp env file w =
     (case named_temporary_file env (snd (splitext (name file))) of
        Inl e \<Rightarrow> (Inl e, w)
      | Inr path \<Rightarrow>
          (case write_chunks env path (read_chunks chunk_size (data file))
                  (st (TempFileCreated path) w) of
             (Some e, w') \<Rightarrow> (Inl e, w')
           | (None, w') \<Rightarrow> (Inr path, w')))"

text \<open>
  \<^verbatim>\<open>
  def process_pdf(file_path):
      texts = []
      with open(file_path, 'rb') as file:
          reader = PdfReader(file)
          for page in reader.pages:
              texts.append(page.extract_text())
      return texts
  \<close>
  The argument is the content of the file at \<^verbatim>\<open>file_path\<close>.
\<close>

definition process_pdf :: "'vs env \<Rightarrow> string \<Rightarrow> exn + string list" where
  "process_pdf env bytes = pdf_pages env bytes"

text \<open>
  Lines 68-79: the parser is chosen by the end of the file name; \<open>None\<close> is the
  \<^verbatim>\<open>else\<close> branch (unsupported format). \<open>bytes\<close> is the content of the temporary file.
\<close>

definition load_texts :: "'vs env \<Rightarrow> string \<Rightarrow> string \<Rightarrow> (exn + string list) option" where
  "load_texts env file_name bytes =
     (if suffix ''.pdf'' file_name then Some (process_pdf env bytes)
      else if suffix ''.docx'' file_name then Some (unstructured_load env bytes)
      else if suffix ''.txt'' file_name then Some (text_readlines env bytes)
      else None)"

text \<open>
  \<^verbatim>\<open>
  vectorstore = None
  batch_size = 1000
  for i in range(0, len(split_texts), batch_size):
      batch = split_texts[i:i+batch_size]
      if vectorstore is None:
          vectorstore = FAISS.from_texts(batch, embeddings)
      else:
          vectorstore.add_texts(batch)
  \<close>
\<close>

function build_index ::
  "'vs env \<Rightarrow> string list \<Rightarrow> nat \<Rightarrow> 'vs option \<Rightarrow> exn + 'vs option" where
  "build_index env split_texts i vectorstore =
     (if i < length split_texts
      then (case (case vectorstore of
                    None \<Rightarrow> from_texts env (take batch_size (drop i split_texts))
                  | Some v \<Rightarrow> add_texts env v (take batch_size (drop i split_texts))) of
              Inl e \<Rightarrow> Inl e
            | Inr v' \<Rightarrow> build_index env split_texts (i + batch_size) (Some v'))
      else Inr vectorstore)"
  by pat_completeness auto
termination
  by (relation "measure (\<lambda>(env, split_texts, i, vectorstore). length split_texts - i)")
     (auto simp: batch_size_def)

text \<open>Lines 81-94: split the joined texts, then build the index in batches.\<close>

definition index_texts :: "'vs env \<Rightarrow> string list \<Rightarrow> exn + 'vs option" where
  "index_texts env texts =
     (case split_text env 1000 200 (join nl texts) of
        Inl e \<Rightarrow> Inl e
      | Inr split_texts \<Rightarrow> build_index env split_texts 0 None)"

text \<open>
  The body of the \<^verbatim>\<open>try\<close> (lines 58-94): what it returns or raises, the value of
  \<^verbatim>\<open>temp_file_path\<close> at that point, and the world.
\<close>

definition process_document_try ::
  "'vs env \<Rightarrow> uploaded_file \<Rightarrow> 'vs world \<Rightarrow> (exn + 'vs option) \<times> string option \<times> 'vs world" where
  "process_document_try env file w =
     (case copy_to_temp env file w of
        (Inl e, w1) \<Rightarrow> (Inl e, None, w1)
      | (Inr path, w1) \<Rightarrow>
          (case load_texts env (name file) (concat (read_chunks chunk_size (data file))) of
             None \<Rightarrow>
               (Inr None, Some path,
                st (StError ''Unsupported file format. Please upload a PDF, DOCX, or TXT file.'') w1)
           | Some (Inl e) \<Rightarrow> (Inl e, Some path, w1)
           | Some (Inr texts) \<Rightarrow> (index_texts env texts, Some path, w1)))"

text \<open>
  The \<^verbatim>\<open>finally\<close> block (lines 103-108). The temporary file exists whenever
  \<^verbatim>\<open>temp_file_path\<close> is set, since nothing else removes it.
\<close>

definition remove_temp :: "'vs env \<Rightarrow> string option \<Rightarrow> 'vs world \<Rightarrow> 'vs world" where
  "remove_temp env temp_file_path w =
     (case temp_file_path of
        None \<Rightarrow> w
      | Some path \<Rightarrow>
          (if path = [] then w
           else (case os_unlink env path of
                   None \<Rightarrow> st (TempFileUnlinked path) w
                 | Some e \<Rightarrow>
                     st (StWarning (''Could not remove temporary file: '' @ str_exn e)) w)))"

definition process_document ::
  "'vs env \<Rightarrow> uploaded_file \<Rightarrow> 'vs world \<Rightarrow> 'vs option \<times> 'vs world" where
  "process_document env file w =
     (if file_size file > MAX_FILE_SIZE
      then (None,
            st (StError ''File size exceeds the limit of 15MB. Please upload a smaller file.'') w)
      else (case process_document_try env file w of
              (Inr vectorstore, temp_file_path, w1) \<Rightarrow>
                (vectorstore, remove_temp env temp_file_path w1)
            | (Inl (ImportError m), temp_file_path, w1) \<Rightarrow>
                (None,
                 remove_temp env temp_file_path
                   (st (StCode ''pip install pypdf faiss-cpu'')
                     (st (StInfo ''Please install the required packages by running:'')
                       (st (StError ''Error: Missing dependencies for processing this file type.'')
                          w1))))
            | (Inl (Exception m), temp_file_path, w1) \<Rightarrow>
                (None,
                 remove_temp env temp_file_path
                   (st (StError (''An error occurred while processing the document: '' @ m)) w1))))"

section \<open>Persistence and housekeeping (app.py, lines 118-120 and 300-307)\<close>

text \<open>Opening a file for writing creates or truncates it; its creation time is the clock's.\<close>

definition write_file :: "string \<Rightarrow> 'vs world \<Rightarrow> 'vs world" where
  "write_file filename w =
     w\<lparr>files := (filename, clock w) # filter (\<lambda>(n, t). n \<noteq> filename) (files w)\<rparr>"

text \<open>
  \<^verbatim>\<open>
  def save_vectorstore(vectorstore, filename="vectorstore.pkl"):
      with open(filename, "wb") as f:
          pickle.dump(vectorstore, f)
  \<close>
\<close>

definition vectorstore_pkl :: string where
  "vectorstore_pkl = ''vectorstore.pkl''"

definition save_vectorstore :: "'vs env \<Rightarrow> 'vs \<Rightarrow> string \<Rightarrow> 'vs world \<Rightarrow> exn option \<times> 'vs world" where
  "save_vectorstore env vs filename w = (pickle_dump env vs, write_file filename w)"

text \<open>\<^verbatim>\<open>timedelta.days\<close> of a difference given in microseconds (rounded towards minus infinity).\<close>

definition days :: "int \<Rightarrow> int" where
  "days us = us div (86400 * 1000000)"

definition os_remove :: "string \<Rightarrow> (string \<times> int) list \<Rightarrow> (string \<times> int) list" where
  "os_remove filename fs = filter (\<lambda>(n, t). n \<noteq> filename) fs"

text \<open>
  \<^verbatim>\<open>
  for filename in os.listdir():
      if filename.startswith("vectorstore_") and filename.endswith(".pkl"):
          file_path = os.path.join(os.getcwd(), filename)
          file_age = current_time - datetime.fromtimestamp(os.path.getctime(file_path))
          if file_age.days > max_age_days:
              os.remove(file_path)
  \<close>
  The loop runs over the listing taken at its start; \<open>ctime\<close> is the creation time of
  the listed file.
\<close>

fun cleanup_loop ::
  "int \<Rightarrow> int \<Rightarrow> (string \<times> int) list \<Rightarrow> (string \<times> int) list \<Rightarrow> (string \<times> int) list" where
  "cleanup_loop current_time max_age_days [] fs = fs"
| "cleanup_loop current_time max_age_days ((filename, ctime) # rest) fs =
     (if prefix ''vectorstore_'' filename \<and> suffix ''.pkl'' filename
      then (if days (current_time - ctime) > max_age_days
            then cleanup_loop current_time max_age_days rest (os_remove filename fs)
            else cleanup_loop current_time max_age_days rest fs)
      else cleanup_loop current_time max_age_days rest fs)"

definition cleanup_old_vectorstores :: "int \<Rightarrow> 'vs world \<Rightarrow> 'vs world" where
  "cleanup_old_vectorstores max_age_days w =
     w\<lparr>files := cleanup_loop (clock w) max_age_days (files w) (files w)\<rparr>"

definition default_max_age_days :: int where
  "default_max_age_days = 2"

section \<open>The query path (app.py, lines 141-179)\<close>

definition base_context :: string where
  "base_context =
     ''You are AgroPro, a helpful and knowledgeable AI specializing in agriculture, farming practices, crop science, soil health, and sustainable agriculture. When assisting users:'' @ nl @
     [] @ nl @
     ''    1. Offer practical advice for farmers and agricultural professionals on topics like crop management, pest control, and sustainable practices.'' @ nl @
     ''    2. Tailor responses for different experience levels, from novice farmers to agriculture experts.'' @ nl @
     ''    3. Provide concise, relevant information, aiming to increase user understanding of agricultural science and industry trends.'' @ nl @
     ''    4. Encourage environmental responsibility by promoting sustainable agricultural methods.'' @ nl @
     ''    5. Suggest real-world applications for farming techniques, such as water conservation, soil management, and organic farming practices.'' @ nl @
     ''    6. Motivate users to improve their practices by suggesting resources and tools for further learning.'' @ nl @
     [] @ nl @
     ''    Previous conversation:'' @ nl @
     ''    ''"

text \<open>
  Lines 160-167: the prompt handed to the model. With a vectorstore the retrieval comes
  first and may raise; it is outside the \<^verbatim>\<open>try\<close> of \<open>get_gemini_response\<close>. A document is
  represented by its \<^verbatim>\<open>page_content\<close>.
\<close>

definition full_context ::
  "'vs env \<Rightarrow> ConversationBuffer \<Rightarrow> string \<Rightarrow> 'vs option \<Rightarrow> exn + string" where
  "full_context env conversation_buffer prompt vectorstore =
     (let conversation_context = get_context conversation_buffer
      in case vectorstore of
           Some vs \<Rightarrow>
             (case similarity_search env vs prompt 2 of
                Inl e \<Rightarrow> Inl e
              | Inr relevant_docs \<Rightarrow>
                  Inr (base_context @ nl @ conversation_context @ nl @ nl
                       @ ''Relevant document content:'' @ nl @ join nl relevant_docs
                       @ nl @ nl @ ''User query: '' @ prompt))
         | None \<Rightarrow>
             Inr (base_context @ nl @ conversation_context @ nl @ nl
                  @ ''User query: '' @ prompt))"

text \<open>\<^verbatim>\<open>' '.join(part.text for part in response.parts)\<close>: the first getter that raises ends it.\<close>

fun part_texts :: "(exn + string) list \<Rightarrow> exn + string list" where
  "part_texts [] = Inr []"
| "part_texts (Inl e # ps) = Inl e"
| "part_texts (Inr t # ps) = (case part_texts ps of Inl e \<Rightarrow> Inl e | Inr ts \<Rightarrow> Inr (t # ts))"

text \<open>Lines 171-176: the reply text by the shape of the response.\<close>

fun response_text :: "response \<Rightarrow> exn + string" where
  "response_text (WithText t) = t"
| "response_text (WithParts ps) =
     (case part_texts ps of Inl e \<Rightarrow> Inl e | Inr ts \<Rightarrow> Inr (join '' '' ts))"
| "response_text (Opaque s) = Inr s"

definition generation_apology :: string where
  "generation_apology =
     ''I'm sorry, I encountered an error. Could you please try again or rephrase your question?''"

definition safe_apology :: string where
  "safe_apology = ''I'm sorry, I encountered an error. Could you please rephrase your question?''"

text \<open>
  \<open>get_gemini_response\<close>: \<open>Inl e\<close> is an exception that leaves the function. The
  \<open>conversation_buffer\<close> argument is the object held in the session.
\<close>

definition get_gemini_response ::
  "'vs env \<Rightarrow> ConversationBuffer \<Rightarrow> string \<Rightarrow> 'vs option \<Rightarrow> 'vs world \<Rightarrow> (exn + string) \<times> 'vs world" where
  "get_gemini_response env conversation_buffer prompt vectorstore w =
     (case full_context env conversation_buffer prompt vectorstore of
        Inl e \<Rightarrow> (Inl e, w)
      | Inr fc \<Rightarrow>
          (case (case generate_content env fc of
                   Inl e \<Rightarrow> Inl e
                 | Inr response \<Rightarrow> response_text response) of
             Inr text \<Rightarrow> (Inr text, w)
           | Inl e \<Rightarrow>
               (Inr generation_apology,
                st (StError (''An error occurred while generating the response: '' @ str_exn e)) w)))"

text \<open>
  \<^verbatim>\<open>
  def safe_get_gemini_response(conversation_buffer, prompt, vectorstore=None):
      try:
          return get_gemini_response(conversation_buffer, prompt, vectorstore)
      except Exception as e:
          st.error(f"An error occurred: {str(e)}. Please try again.")
          return "I'm sorry, I encountered an error. Could you please rephrase your question?"
  \<close>
\<close>

definition safe_get_gemini_response ::
  "'vs env \<Rightarrow> ConversationBuffer \<Rightarrow> string \<Rightarrow> 'vs option \<Rightarrow> 'vs world \<Rightarrow> (exn + string) \<times> 'vs world" where
  "safe_get_gemini_response env conversation_buffer prompt vectorstore w =
     (case get_gemini_response env conversation_buffer prompt vectorstore w of
        (Inr reply, w') \<Rightarrow> (Inr reply, w')
      | (Inl e, w') \<Rightarrow>
          (Inr safe_apology,
           st (StError (''An error occurred: '' @ str_exn e @ ''. Please try again.'')) w'))"

section \<open>The two handlers of chat_interface (app.py, lines 231-247 and 287-298)\<close>

definition set_vectorstore :: "'vs option \<Rightarrow> 'vs world \<Rightarrow> 'vs world" where
  "set_vectorstore v w = w\<lparr>session_state := (session_state w)\<lparr>session_vectorstore := v\<rparr>\<rparr>"

definition set_last_uploaded_file :: "string \<Rightarrow> 'vs world \<Rightarrow> 'vs world" where
  "set_last_uploaded_file n w =
     w\<lparr>session_state := (session_state w)\<lparr>session_last_uploaded_file := Some n\<rparr>\<rparr>"

definition append_message :: "string \<Rightarrow> string \<Rightarrow> string \<Rightarrow> 'vs world \<Rightarrow> 'vs world" where
  "append_message r c t w =
     w\<lparr>session_state := (session_state w)
          \<lparr>session_messages := session_messages (session_state w)
                        @ [\<lparr>msg_role = r, msg_content = c, msg_time = t\<rparr>]\<rparr>\<rparr>"

definition buffer_add_message :: "string \<Rightarrow> string \<Rightarrow> 'vs world \<Rightarrow> 'vs world" where
  "buffer_add_message r c w =
     w\<lparr>session_state := (session_state w)
          \<lparr>session_conversation_buffer :=
             add_message (session_conversation_buffer (session_state w)) r c\<rparr>\<rparr>"

text \<open>
  Lines 231-247: the upload handler. The result is the exception that leaves
  \<open>chat_interface\<close>, if any (only \<open>save_vectorstore\<close> can raise here).
\<close>

definition chat_interface_upload ::
  "'vs env \<Rightarrow> uploaded_file option \<Rightarrow> 'vs world \<Rightarrow> exn option \<times> 'vs world" where
  "chat_interface_upload env uploaded w =
     (case uploaded of
        None \<Rightarrow> (None, w)
      | Some file \<Rightarrow>
          (if file_size file > MAX_FILE_SIZE
           then (None,
                 st (StError ''File size exceeds the limit of 15MB. Please upload a smaller file.'') w)
           else if session_last_uploaded_file (session_state w) \<noteq> Some (name file)
           then (case process_document env file w of
                   (Some vs, w1) \<Rightarrow>
                     (case save_vectorstore env vs vectorstore_pkl (set_vectorstore (Some vs) w1) of
                        (Some e, w2) \<Rightarrow> (Some e, w2)
                      | (None, w2) \<Rightarrow>
                          (None,
                           st (StSuccess ''Document processed and saved successfully!'')
                             (set_last_uploaded_file (name file) w2)))
                 | (None, w1) \<Rightarrow>
                     (None,
                      st (StWarning
                            ''Document processing failed. Please check the error message above.'')
                         w1))
           else (None, st (StInfo ''Document already processed. Using existing vectorstore.'') w)))"

text \<open>
  Lines 287-298: one chat round. An empty prompt is falsy and starts no round. The call
  goes to \<open>get_gemini_response\<close>, not to \<open>safe_get_gemini_response\<close>.
  \<open>get_current_time\<close> is called four times: at line 288 for the user's bubble, at line 289
  for the user's entry of the message log and, after the reply has come back, at line 296
  for the assistant's bubble and at line 297 for its log entry. \<open>t1\<close>, \<open>t2\<close>, \<open>t3\<close> and \<open>t4\<close>
  are the readings of the clock at these four calls, in this order.
\<close>

definition chat_interface_prompt ::
  "'vs env \<Rightarrow> string \<Rightarrow> int \<Rightarrow> int \<Rightarrow> int \<Rightarrow> int \<Rightarrow> 'vs world
     \<Rightarrow> exn option \<times> 'vs world" where
  "chat_interface_prompt env prompt t1 t2 t3 t4 w =
     (if prompt = [] then (None, w)
      else
        (let w1 = st (StChatMessage ''user'' (prompt @ '' - '' @ get_current_time env t1)) w;
             w2 = append_message ''user'' prompt (get_current_time env t2) w1;
             w3 = buffer_add_message ''user'' prompt w2
         in case get_gemini_response env (session_conversation_buffer (session_state w3)) prompt
                   (session_vectorstore (session_state w3)) w3 of
              (Inl e, w4) \<Rightarrow> (Some e, w4)
            | (Inr response, w4) \<Rightarrow>
                (let w5 = st (StChatMessage ''assistant''
                                (response @ '' - '' @ get_current_time env t3)) w4;
                     w6 = append_message ''assistant'' response (get_current_time env t4) w5
                 in (None, buffer_add_message ''assistant'' response w6))))"

section \<open>Concrete collaborators for evaluating the program\<close>

text \<open>
  A vectorstore that is the list of its texts, parsers that return the file content as one
  text, a splitter that returns a non-empty text as one chunk, and a model that answers
  \<open>ok\<close>. Failing collaborators are record updates of this one.
\<close>

definition test_env :: "string list env" where
  "test_env =
     \<lparr>named_temporary_file = (\<lambda>suffix. Inr (''/tmp/upload'' @ suffix)),
      temp_write = (\<lambda>path chunk. None),
      pdf_pages = (\<lambda>bytes. Inr [bytes]),
      unstructured_load = (\<lambda>bytes. Inr [bytes]),
      text_readlines = (\<lambda>bytes. Inr [bytes]),
      split_text = (\<lambda>size overlap text. Inr (if text = [] then [] else [text])),
      from_texts = (\<lambda>batch. Inr batch),
      add_texts = (\<lambda>vs batch. Inr (vs @ batch)),
      os_unlink = (\<lambda>path. None),
      pickle_dump = (\<lambda>vs. None),
      similarity_search = (\<lambda>vs query k. Inr (take k vs)),
      generate_content = (\<lambda>p. Inr (WithText (Inr ''ok''))),
      strftime_HM = (\<lambda>t. if t < 60 then ''12:00'' else ''12:01'')\<rparr>"

text \<open>The world at session start: nothing uploaded, no messages, \<^verbatim>\<open>ConversationBuffer()\<close>.\<close>

definition world0 :: "string list world" where
  "world0 =
     \<lparr>session_state =
        \<lparr>session_vectorstore = None, session_last_uploaded_file = None,
         session_messages = [],
         session_conversation_buffer = ConversationBuffer_init default_max_turns\<rparr>,
      effects = [], files = [], clock = 0\<rparr>"

text \<open>The last \<open>n\<close> elements of a list, in order (all of it when it is shorter).\<close>

definition lastn :: "nat \<Rightarrow> 'a list \<Rightarrow> 'a list" where
  "lastn n xs = drop (length xs - n) xs"

definition mk_turn :: "string \<times> string \<Rightarrow> turn" where
  "mk_turn rc = \<lparr>role = fst rc, content = snd rc\<rparr>"

text \<open>The label that opens the document section of a grounded prompt.\<close>

definition section_label :: string where
  "section_label = ''Relevant document content:''"

text \<open>A vectorstore whose \<^verbatim>\<open>similarity_search\<close> raises.\<close>

definition failing_search_env :: "string list env" where
  "failing_search_env =
     test_env\<lparr>similarity_search := (\<lambda>vs query k. Inl (Exception ''index unavailable''))\<rparr>"

text \<open>Two buffers of different capacity that render to the same context.\<close>

definition one_turn_buffer :: "int \<Rightarrow> ConversationBuffer" where
  "one_turn_buffer m = \<lparr>buffer = [\<lparr>role = ''user'', content = ''hello''\<rparr>], max_turns = m\<rparr>"

text \<open>
  The batched build as the design describes it: the chunks cut into consecutive batches of
  \<open>batch_size\<close>, the first batch initialising the index and every later one added to it,
  the whole build failing with the first batch that fails.
\<close>

function batches :: "'a list \<Rightarrow> 'a list list" where
  "batches xs = (if xs = [] then [] else take batch_size xs # batches (drop batch_size xs))"
  by pat_completeness auto
termination
  by (relation "measure length") (auto simp: batch_size_def)

fun insert_batches :: "'vs env \<Rightarrow> 'vs option \<Rightarrow> string list list \<Rightarrow> exn + 'vs option" where
  "insert_batches env acc [] = Inr acc"
| "insert_batches env acc (b # bs) =
     (case (case acc of None \<Rightarrow> from_texts env b | Some v \<Rightarrow> add_texts env v b) of
        Inl e \<Rightarrow> Inl e
      | Inr v' \<Rightarrow> insert_batches env (Some v') bs)"

text \<open>Collaborators that fail while parsing, while splitting and while embedding.\<close>

definition failing_parse_env :: "string list env" where
  "failing_parse_env = test_env\<lparr>text_readlines := (\<lambda>bytes. Inl (Exception ''cannot decode''))\<rparr>"

definition failing_split_env :: "string list env" where
  "failing_split_env =
     test_env\<lparr>split_text := (\<lambda>size overlap text. Inl (Exception ''splitter failed''))\<rparr>"

definition failing_embed_env :: "string list env" where
  "failing_embed_env =
     test_env\<lparr>from_texts := (\<lambda>batch. Inl (Exception ''embedding backend unavailable''))\<rparr>"



text \<open>Uploads: a text file, an empty text file, a file of another format, a 20 MB file.\<close>

definition notes_txt :: uploaded_file where
  "notes_txt = \<lparr>name = ''notes.txt'', data = ''loam holds water''\<rparr>"

definition empty_txt :: uploaded_file where
  "empty_txt = \<lparr>name = ''empty.txt'', data = []\<rparr>"

definition notes_md :: uploaded_file where
  "notes_md = \<lparr>name = ''notes.md'', data = ''# loam''\<rparr>"

definition big_pdf :: uploaded_file where
  "big_pdf = \<lparr>name = ''big.pdf'', data = replicate (20 * 1024 * 1024) (CHR ''a'')\<rparr>"

text \<open>A session that already has an active index.\<close>

definition world1 :: "string list world" where
  "world1 = set_vectorstore (Some [''old chunk'']) world0"

text \<open>What the sweep removes: a directory entry (name, creation time) at a given time.\<close>

definition swept :: "int \<Rightarrow> int \<Rightarrow> string \<times> int \<Rightarrow> bool" where
  "swept current_time max_age_days entry =
     (prefix ''vectorstore_'' (fst entry) \<and> suffix ''.pkl'' (fst entry)
      \<and> days (current_time - snd entry) > max_age_days)"

text \<open>One day in microseconds.\<close>

definition day :: int where
  "day = 86400 * 1000000"

text \<open>
  The world after a successful ingestion at time 0 has persisted the index with
  \<open>save_vectorstore\<close>; \<open>later\<close> is that world when the clock reads \<open>t\<close>.
\<close>

definition saved_world :: "string list world" where
  "saved_world = snd (save_vectorstore test_env [''chunk''] vectorstore_pkl world0)"

definition later :: "int \<Rightarrow> string list world \<Rightarrow> string list world" where
  "later t w = w\<lparr>clock := t\<rparr>"

definition old_index_world :: "string list world" where
  "old_index_world = world0\<lparr>files := [(''vectorstore_old.pkl'', 0)]\<rparr>"

section \<open>Properties of the conversation buffer\<close>

lemma add_message_max_turns: "max_turns (add_message self r c) = max_turns self"
  by (simp add: add_message_def Let_def)

lemma add_messages_max_turns: "max_turns (add_messages self ts) = max_turns self"
  by (induction self ts rule: add_messages.induct) (simp_all add: add_message_max_turns)

lemma slice_from_neg: "0 < n \<Longrightarrow> slice_from (- int n) xs = lastn n xs"
  by (simp add: slice_from_def lastn_def nat_diff_distrib')

lemma lastn_all: "length xs \<le> n \<Longrightarrow> lastn n xs = xs"
  by (simp add: lastn_def)

lemma lastn_append:
  assumes "0 < n" "ys \<noteq> []"
  shows "lastn n (lastn n xs @ ys) = lastn n (xs @ ys)"
proof (cases "n \<le> length xs")
  case True
  then have "length xs - (length xs - n) = n" by simp
  with True show ?thesis by (simp add: lastn_def add.commute)
next
  case False
  then show ?thesis by (simp add: lastn_def)
qed

text \<open>With a positive \<open>max_turns\<close> one call keeps the last \<open>2 * max_turns\<close> turns.\<close>

lemma add_message_buffer_pos:
  assumes "1 \<le> max_turns self"
  shows "buffer (add_message self r c) =
         lastn (nat (max_turns self * 2)) (buffer self @ [\<lparr>role = r, content = c\<rparr>])"
proof -
  obtain n where n: "max_turns self * 2 = int n" "0 < n"
    using assms
    by (metis mult_pos_pos pos_int_cases zero_less_numeral less_le_trans zero_less_one)
  show ?thesis
    using n by (simp add: add_message_def Let_def slice_from_neg lastn_all)
qed

lemma add_messages_buffer_pos:
  "1 \<le> max_turns self \<Longrightarrow>
   buffer (add_messages self ts) =
     (if ts = [] then buffer self
      else lastn (nat (max_turns self * 2)) (buffer self @ map mk_turn ts))"
proof (induction self ts rule: add_messages.induct)
  case (1 self)
  then show ?case by simp
next
  case (2 self r c rest)
  then show ?case
    by (cases rest)
       (auto simp: add_message_max_turns add_message_buffer_pos lastn_append mk_turn_def)
qed

text \<open>
  For every positive \<open>max_turns\<close> the bound of the buffer holds as the specification
  states it: after at least \<open>2 * max_turns + 1\<close> additions, on any buffer, exactly the
  last \<open>2 * max_turns\<close> added turns are retained, in their order.
\<close>

lemma add_messages_bounded_pos:
  assumes "1 \<le> max_turns self" "2 * max_turns self + 1 \<le> int (length ts)"
  shows "int (length (buffer (add_messages self ts))) = 2 * max_turns self
         \<and> buffer (add_messages self ts) = lastn (nat (2 * max_turns self)) (map mk_turn ts)"
proof -
  have ne: "ts \<noteq> []" using assms by auto
  have le: "nat (max_turns self * 2) \<le> length ts" using assms by linarith
  have "buffer (add_messages self ts) =
        lastn (nat (max_turns self * 2)) (buffer self @ map mk_turn ts)"
    using add_messages_buffer_pos[OF assms(1), of ts] ne by simp
  also have "\<dots> = lastn (nat (max_turns self * 2)) (map mk_turn ts)"
    using le by (simp add: lastn_def)
  finally have eq:
    "buffer (add_messages self ts) = lastn (nat (max_turns self * 2)) (map mk_turn ts)" .
  have "length (lastn (nat (max_turns self * 2)) (map mk_turn ts)) = nat (max_turns self * 2)"
    using le by (simp add: lastn_def)
  with eq assms(1) show ?thesis by (simp add: mult.commute)
qed

lemma add_message_length_pos:
  assumes "1 \<le> max_turns self"
  shows "int (length (buffer (add_message self r c))) \<le> 2 * max_turns self"
  using assms by (simp add: add_message_buffer_pos lastn_def)

text \<open>
  Claim C3. The buffer is meant to hold at most \<open>2 * max_turns\<close> turns after any
  addition. With \<open>max_turns = 0\<close> the guard of \<open>add_message\<close> fires on the first addition,
  but the slice \<^verbatim>\<open>self.buffer[-0:]\<close> is the whole list, so nothing is evicted: after three
  additions (at least \<open>2 * 0 + 1\<close>) the buffer holds all three turns and its length is not
  \<open>2 * max_turns = 0\<close>.
\<close>

theorem add_message_max_turns_zero_keeps_all:
  "buffer (add_messages (ConversationBuffer_init 0)
             [(''user'', ''a''), (''assistant'', ''b''), (''user'', ''c'')])
     = [\<lparr>role = ''user'', content = ''a''\<rparr>, \<lparr>role = ''assistant'', content = ''b''\<rparr>,
        \<lparr>role = ''user'', content = ''c''\<rparr>]
   \<and> int (length (buffer (add_messages (ConversationBuffer_init 0)
             [(''user'', ''a''), (''assistant'', ''b''), (''user'', ''c'')])))
       > 2 * max_turns (ConversationBuffer_init 0)"
  by (simp add: add_message_def ConversationBuffer_init_def slice_from_def)

text \<open>
  Claim C4. \<open>get_context\<close> of an empty buffer is the empty string. In general it is the
  retained turns, in their order, each rendered as role, colon, space, content, and joined
  by newlines: nothing for no turn, the rendered turn for one turn, and for a turn followed
  by further turns the rendered turn, a newline and the context of the further turns. So
  it is a function of the turn sequence alone. After one user turn \<open>X\<close> and one assistant
  turn \<open>Y\<close> on a fresh buffer (of positive \<open>max_turns\<close>) it is \<^verbatim>\<open>"user: X\nassistant: Y"\<close>;
  after a further user turn \<open>Z\<close> and a further assistant turn \<open>V\<close> it has four lines when
  the buffer retains them, and the last two lines when \<open>max_turns\<close> is one.
\<close>

theorem get_context_renders_turns:
  "get_context (ConversationBuffer_init m) = []
   \<and> get_context self = join nl (map (\<lambda>msg. role msg @ '': '' @ content msg) (buffer self))
   \<and> get_context (self\<lparr>buffer := []\<rparr>) = []
   \<and> get_context (self\<lparr>buffer := [t]\<rparr>) = role t @ '': '' @ content t
   \<and> get_context (self\<lparr>buffer := t # u # ts\<rparr>)
       = role t @ '': '' @ content t @ nl @ get_context (self\<lparr>buffer := u # ts\<rparr>)
   \<and> (buffer other = buffer self \<longrightarrow> get_context other = get_context self)
   \<and> (1 \<le> m \<longrightarrow>
        get_context (add_message (add_message (ConversationBuffer_init m) ''user'' X)
                       ''assistant'' Y)
          = ''user: '' @ X @ nl @ ''assistant: '' @ Y)
   \<and> (2 \<le> m \<longrightarrow>
        get_context
          (add_message
             (add_message
                (add_message (add_message (ConversationBuffer_init m) ''user'' X)
                   ''assistant'' Y)
                ''user'' Z)
             ''assistant'' V)
          = ''user: '' @ X @ nl @ ''assistant: '' @ Y @ nl @ ''user: '' @ Z @ nl
            @ ''assistant: '' @ V)
   \<and> get_context
        (add_message
           (add_message
              (add_message (add_message (ConversationBuffer_init 1) ''user'' X)
                 ''assistant'' Y)
              ''user'' Z)
           ''assistant'' V)
       = ''user: '' @ Z @ nl @ ''assistant: '' @ V"
proof (intro conjI impI)
  show "get_context (ConversationBuffer_init m) = []"
    by (simp add: get_context_def ConversationBuffer_init_def)
  show "get_context self = join nl (map (\<lambda>msg. role msg @ '': '' @ content msg) (buffer self))"
    by (simp add: get_context_def render_turn_def[abs_def])
  show "get_context (self\<lparr>buffer := []\<rparr>) = []"
    by (simp add: get_context_def)
  show "get_context (self\<lparr>buffer := [t]\<rparr>) = role t @ '': '' @ content t"
    by (simp add: get_context_def render_turn_def)
  show "get_context (self\<lparr>buffer := t # u # ts\<rparr>)
       = role t @ '': '' @ content t @ nl @ get_context (self\<lparr>buffer := u # ts\<rparr>)"
    by (simp add: get_context_def render_turn_def)
  show "get_context other = get_context self" if "buffer other = buffer self"
    using that by (simp add: get_context_def)
  show "get_context (add_message (add_message (ConversationBuffer_init m) ''user'' X)
                 ''assistant'' Y)
             = ''user: '' @ X @ nl @ ''assistant: '' @ Y" if "1 \<le> m"
    using that
    by (simp add: get_context_def ConversationBuffer_init_def add_message_def Let_def
        slice_from_def render_turn_def)
  show "get_context
          (add_message
             (add_message
                (add_message (add_message (ConversationBuffer_init m) ''user'' X)
                   ''assistant'' Y)
                ''user'' Z)
             ''assistant'' V)
          = ''user: '' @ X @ nl @ ''assistant: '' @ Y @ nl @ ''user: '' @ Z @ nl
            @ ''assistant: '' @ V" if "2 \<le> m"
    using that
    by (simp add: get_context_def ConversationBuffer_init_def add_message_def Let_def
        slice_from_def render_turn_def)
  show "get_context
        (add_message
           (add_message
              (add_message (add_message (ConversationBuffer_init 1) ''user'' X)
                 ''assistant'' Y)
              ''user'' Z)
           ''assistant'' V)
       = ''user: '' @ Z @ nl @ ''assistant: '' @ V"
    by (simp add: get_context_def ConversationBuffer_init_def add_message_def Let_def
        slice_from_def render_turn_def)
qed

theorem get_context_renders_turns_witness:
  "(1::int) \<le> 5 \<and> (2::int) \<le> 5
   \<and> buffer \<lparr>buffer = [\<lparr>role = ''user'', content = ''X''\<rparr>], max_turns = 3\<rparr>
       = buffer \<lparr>buffer = [\<lparr>role = ''user'', content = ''X''\<rparr>], max_turns = 5\<rparr>
   \<and> get_context \<lparr>buffer = [\<lparr>role = ''user'', content = ''X''\<rparr>], max_turns = 3\<rparr>
       = get_context \<lparr>buffer = [\<lparr>role = ''user'', content = ''X''\<rparr>], max_turns = 5\<rparr>
   \<and> get_context (ConversationBuffer_init 5) = []
   \<and> get_context (add_message (add_message (ConversationBuffer_init 5) ''user'' ''X'')
                    ''assistant'' ''Y'')
       = ''user: X'' @ nl @ ''assistant: Y''
   \<and> get_context
        (add_message
           (add_message
              (add_message (add_message (ConversationBuffer_init 5) ''user'' ''X'')
                 ''assistant'' ''Y'')
              ''user'' ''Z'')
           ''assistant'' ''V'')
       = ''user: X'' @ nl @ ''assistant: Y'' @ nl @ ''user: Z'' @ nl @ ''assistant: V''"
  using get_context_renders_turns
    [of 5 "\<lparr>buffer = [\<lparr>role = ''user'', content = ''X''\<rparr>], max_turns = 5\<rparr>" _ _ _
        "\<lparr>buffer = [\<lparr>role = ''user'', content = ''X''\<rparr>], max_turns = 3\<rparr>"
        "''X''" "''Y''" "''Z''" "''V''"]
  by simp

section \<open>Properties of the query path\<close>

lemma get_gemini_response_raises_iff:
  "fst (get_gemini_response env cb prompt v w) = Inl e \<longleftrightarrow>
     (\<exists>vs. v = Some vs \<and> similarity_search env vs prompt 2 = Inl e)"
  by (auto simp: get_gemini_response_def full_context_def Let_def
      split: sum.splits option.splits)

lemma get_gemini_response_generation_failure:
  assumes "full_context env cb prompt v = Inr fc" "generate_content env fc = Inl e"
  shows "get_gemini_response env cb prompt v w =
     (Inr generation_apology,
      st (StError (''An error occurred while generating the response: '' @ str_exn e)) w)"
  using assms by (simp add: get_gemini_response_def)

lemma safe_get_gemini_response_never_raises:
  "\<exists>reply. fst (safe_get_gemini_response env cb prompt v w) = Inr reply"
  by (simp add: safe_get_gemini_response_def split: prod.splits sum.splits)

text \<open>
  Claim C1. A failure of the retrieval is not mapped to an apology by the entrypoint that
  \<open>chat_interface\<close> calls: \<^verbatim>\<open>similarity_search\<close> runs before the \<^verbatim>\<open>try\<close> of
  \<open>get_gemini_response\<close>, so its exception leaves \<open>get_gemini_response\<close> and, from there,
  the chat round. The wrapper \<open>safe_get_gemini_response\<close> would catch it, but is not the
  function called.
\<close>

theorem get_gemini_response_retrieval_failure_raises:
  "fst (get_gemini_response failing_search_env (ConversationBuffer_init default_max_turns)
          ''hi'' (Some [''chunk'']) world0) = Inl (Exception ''index unavailable'')
   \<and> fst (chat_interface_prompt failing_search_env ''hi'' t1 t2 t3 t4
            (set_vectorstore (Some [''chunk'']) world0))
       = Some (Exception ''index unavailable'')
   \<and> fst (safe_get_gemini_response failing_search_env
            (ConversationBuffer_init default_max_turns) ''hi'' (Some [''chunk'']) world0)
       = Inr safe_apology"
  by (simp add: chat_interface_prompt_def safe_get_gemini_response_def get_gemini_response_def
      full_context_def failing_search_env_def test_env_def Let_def
      set_vectorstore_def world0_def buffer_add_message_def append_message_def st_def)

subsection \<open>The assembled prompt\<close>

text \<open>A text without newline occurs in two newline-separated texts only inside one of them.\<close>

lemma sublist_across_newline:
  assumes "CHR 0x0A \<notin> set L"
  shows "sublist L (A @ nl @ B) \<longleftrightarrow> sublist L A \<or> sublist L B"
proof
  assume "sublist L (A @ nl @ B)"
  then consider "sublist L A" | "sublist L (nl @ B)"
    | xs1 xs2 where "L = xs1 @ xs2" "suffix xs1 A" "prefix xs2 (nl @ B)"
    unfolding sublist_append[of L A "nl @ B"] by blast
  then show "sublist L A \<or> sublist L B"
  proof cases
    case 1
    then show ?thesis by simp
  next
    case 2
    then have "prefix L (CHR 0x0A # B) \<or> sublist L B"
      by (simp add: nl_def sublist_Cons_right)
    moreover have "prefix L (CHR 0x0A # B) \<Longrightarrow> L = []"
      using assms by (cases L) auto
    ultimately show ?thesis by auto
  next
    case 3
    have "xs2 = []" using 3(1,3) assms by (cases xs2) (auto simp: nl_def)
    with 3 show ?thesis by (auto simp: sublist_altdef)
  qed
next
  assume "sublist L A \<or> sublist L B"
  then show "sublist L (A @ nl @ B)"
    by (metis append_assoc sublist_order.dual_order.trans sublist_append_leftI
        sublist_append_rightI)
qed

lemma section_label_no_newline: "CHR 0x0A \<notin> set section_label"
  by (simp add: section_label_def)

lemma section_label_not_in_base_context: "\<not> sublist section_label base_context"
  unfolding base_context_def section_label_def nl_def by code_simp

lemma section_label_not_in_query:
  assumes "\<not> sublist section_label p"
  shows "\<not> sublist section_label (''User query: '' @ p)"
proof
  assume "sublist section_label (''User query: '' @ p)"
  then consider "sublist section_label ''User query: ''"
    | xs1 xs2 where "section_label = xs1 @ xs2" "suffix xs1 ''User query: ''" "prefix xs2 p"
    using assms unfolding sublist_append[of section_label "''User query: ''" p] by blast
  then show False
  proof cases
    case 1
    then show False unfolding section_label_def by code_simp
  next
    case 2
    show False
    proof (cases xs1)
      case Nil
      with 2 assms show False by (auto simp: sublist_altdef')
    next
      case (Cons c cs)
      with 2(1) have "c = CHR ''R''" by (simp add: section_label_def)
      moreover have "c \<in> set ''User query: ''"
        using 2(2) Cons by (metis list.set_intros(1) set_mono_suffix subsetD)
      ultimately show False by simp
    qed
  qed
qed

lemma ungrounded_prompt_no_section:
  assumes "\<not> sublist section_label ctx" "\<not> sublist section_label prompt"
  shows "\<not> sublist section_label
           (base_context @ nl @ ctx @ nl @ nl @ ''User query: '' @ prompt)"
proof -
  have "\<not> sublist section_label
           (base_context @ nl @ (ctx @ nl @ ([] @ nl @ (''User query: '' @ prompt))))"
    using assms(1) section_label_not_in_query[OF assms(2)] section_label_not_in_base_context
    by (simp only: sublist_across_newline[OF section_label_no_newline])
       (simp add: section_label_def)
  then show ?thesis by simp
qed

text \<open>
  Claim C2. Without a vectorstore the prompt is the preamble, the rendered buffer and the
  labelled user query, in this order, and has no document section: the section label
  occurs nowhere in it unless the conversation or the query itself brings it. With a
  vectorstore whose search for the prompt, with \<open>k = 2\<close>, returns \<open>docs\<close>, the prompt has
  the labelled section between the rendered buffer and the user query, holding exactly
  \<open>docs\<close>, in the order returned, joined by newlines. This string is what the model is
  called with.
\<close>

theorem full_context_parts:
  "full_context env cb prompt None =
      Inr (base_context @ nl @ get_context cb @ nl @ nl @ ''User query: '' @ prompt)
   \<and> (\<not> sublist section_label (get_context cb) \<and> \<not> sublist section_label prompt \<longrightarrow>
        \<not> sublist section_label
            (base_context @ nl @ get_context cb @ nl @ nl @ ''User query: '' @ prompt))
   \<and> (similarity_search env vs prompt 2 = Inr docs \<longrightarrow>
        full_context env cb prompt (Some vs) =
          Inr (base_context @ nl @ get_context cb @ nl @ nl @ section_label @ nl
               @ join nl docs @ nl @ nl @ ''User query: '' @ prompt))
   \<and> (full_context env cb prompt v = Inr fc \<and> generate_content env fc = Inr r
        \<and> response_text r = Inr reply \<longrightarrow>
        fst (get_gemini_response env cb prompt v w) = Inr reply)"
proof (intro conjI impI)
  show "full_context env cb prompt None =
      Inr (base_context @ nl @ get_context cb @ nl @ nl @ ''User query: '' @ prompt)"
    by (simp add: full_context_def)
  show "\<not> sublist section_label
            (base_context @ nl @ get_context cb @ nl @ nl @ ''User query: '' @ prompt)"
    if "\<not> sublist section_label (get_context cb) \<and> \<not> sublist section_label prompt"
    using that ungrounded_prompt_no_section by blast
  show "full_context env cb prompt (Some vs) =
          Inr (base_context @ nl @ get_context cb @ nl @ nl @ section_label @ nl
               @ join nl docs @ nl @ nl @ ''User query: '' @ prompt)"
    if "similarity_search env vs prompt 2 = Inr docs"
    using that by (simp add: full_context_def section_label_def)
  show "fst (get_gemini_response env cb prompt v w) = Inr reply"
    if "full_context env cb prompt v = Inr fc \<and> generate_content env fc = Inr r
        \<and> response_text r = Inr reply"
    using that by (simp add: get_gemini_response_def)
qed

theorem full_context_parts_witness:
  "\<not> sublist section_label (get_context (one_turn_buffer 5))
   \<and> \<not> sublist section_label ''What is loam?''
   \<and> \<not> sublist section_label
        (base_context @ nl @ get_context (one_turn_buffer 5) @ nl @ nl
         @ ''User query: '' @ ''What is loam?'')
   \<and> similarity_search test_env [''chunk A'', ''chunk B'', ''chunk C''] ''What is loam?'' 2
       = Inr [''chunk A'', ''chunk B'']
   \<and> full_context test_env (one_turn_buffer 5) ''What is loam?''
        (Some [''chunk A'', ''chunk B'', ''chunk C''])
       = Inr (base_context @ nl @ ''user: hello'' @ nl @ nl @ section_label @ nl
              @ ''chunk A'' @ nl @ ''chunk B'' @ nl @ nl @ ''User query: '' @ ''What is loam?'')
   \<and> fst (get_gemini_response test_env (one_turn_buffer 5) ''What is loam?''
            (Some [''chunk A'', ''chunk B'', ''chunk C'']) world0) = Inr ''ok''"
proof -
  have ctx: "get_context (one_turn_buffer 5) = ''user: hello''"
    by (simp add: get_context_def one_turn_buffer_def render_turn_def)
  have h1: "\<not> sublist section_label (get_context (one_turn_buffer 5))"
    unfolding ctx section_label_def by code_simp
  have h2: "\<not> sublist section_label ''What is loam?''"
    unfolding section_label_def by code_simp
  have h3: "similarity_search test_env [''chunk A'', ''chunk B'', ''chunk C'']
              ''What is loam?'' 2 = Inr [''chunk A'', ''chunk B'']"
    by (simp add: test_env_def numeral_2_eq_2)
  have h4: "generate_content test_env fc = Inr (WithText (Inr ''ok''))" for fc
    by (simp add: test_env_def)
  have h5: "response_text (WithText (Inr ''ok'')) = Inr ''ok''" by simp
  note t = full_context_parts [of test_env "one_turn_buffer 5" "''What is loam?''"
      "[''chunk A'', ''chunk B'', ''chunk C'']" "[''chunk A'', ''chunk B'']"
      "Some [''chunk A'', ''chunk B'', ''chunk C'']" _ "WithText (Inr ''ok'')" "''ok''" world0]
  from t h1 h2 h3 h4 h5 show ?thesis by (simp add: ctx)
qed

subsection \<open>The conversation state\<close>

lemma get_gemini_response_session:
  "session_state (snd (get_gemini_response env cb prompt v w)) = session_state w"
  by (simp add: get_gemini_response_def st_def split: sum.splits)

lemma get_gemini_response_files:
  "files (snd (get_gemini_response env cb prompt v w)) = files w
   \<and> clock (snd (get_gemini_response env cb prompt v w)) = clock w"
  by (simp add: get_gemini_response_def st_def split: sum.splits)

lemma get_gemini_response_reply_world:
  "fst (get_gemini_response env cb prompt v w) = fst (get_gemini_response env cb prompt v w')"
  by (simp add: get_gemini_response_def split: sum.splits)

lemma get_gemini_response_context:
  "get_context cb' = get_context cb \<Longrightarrow>
   fst (get_gemini_response env cb' prompt v w) = fst (get_gemini_response env cb prompt v w)"
  by (simp add: get_gemini_response_def full_context_def)

lemma chat_interface_prompt_records:
  assumes "prompt \<noteq> []"
    and "fst (get_gemini_response env
           (add_message (session_conversation_buffer (session_state w)) ''user'' prompt) prompt
           (session_vectorstore (session_state w)) w) = Inr reply"
  shows "session_conversation_buffer
           (session_state (snd (chat_interface_prompt env prompt t1 t2 t3 t4 w)))
           = add_message
               (add_message (session_conversation_buffer (session_state w)) ''user'' prompt)
               ''assistant'' reply
     \<and> session_messages (session_state (snd (chat_interface_prompt env prompt t1 t2 t3 t4 w)))
           = session_messages (session_state w)
             @ [\<lparr>msg_role = ''user'', msg_content = prompt,
                 msg_time = get_current_time env t2\<rparr>,
                \<lparr>msg_role = ''assistant'', msg_content = reply,
                 msg_time = get_current_time env t4\<rparr>]"
proof -
  define w3 where "w3 = buffer_add_message ''user'' prompt
     (append_message ''user'' prompt (get_current_time env t2)
       (st (StChatMessage ''user'' (prompt @ '' - '' @ get_current_time env t1)) w))"
  have cb: "session_conversation_buffer (session_state w3)
        = add_message (session_conversation_buffer (session_state w)) ''user'' prompt"
    and vs: "session_vectorstore (session_state w3) = session_vectorstore (session_state w)"
    and ms: "session_messages (session_state w3) = session_messages (session_state w)
         @ [\<lparr>msg_role = ''user'', msg_content = prompt, msg_time = get_current_time env t2\<rparr>]"
    by (simp_all add: w3_def buffer_add_message_def append_message_def st_def)
  obtain r w4 where g:
    "get_gemini_response env (session_conversation_buffer (session_state w3)) prompt
       (session_vectorstore (session_state w3)) w3 = (r, w4)"
    by fastforce
  have "fst (get_gemini_response env (session_conversation_buffer (session_state w3)) prompt
     (session_vectorstore (session_state w3)) w3) = Inr reply"
    unfolding cb vs
    using assms(2) get_gemini_response_reply_world[of env _ prompt _ w3 w] by simp
  then have "r = Inr reply" using g by simp
  moreover have "session_state w4 = session_state w3"
    using get_gemini_response_session[of env "session_conversation_buffer (session_state w3)"
        prompt "session_vectorstore (session_state w3)" w3] g
    by simp
  moreover have "chat_interface_prompt env prompt t1 t2 t3 t4 w =
      (case get_gemini_response env (session_conversation_buffer (session_state w3)) prompt
              (session_vectorstore (session_state w3)) w3 of
         (Inl e, w4) \<Rightarrow> (Some e, w4)
       | (Inr response, w4) \<Rightarrow>
           (None, buffer_add_message ''assistant'' response
              (append_message ''assistant'' response (get_current_time env t4)
                 (st (StChatMessage ''assistant''
                      (response @ '' - '' @ get_current_time env t3)) w4))))"
    using assms(1)
    by (simp add: chat_interface_prompt_def Let_def w3_def split: prod.splits sum.splits)
  ultimately show ?thesis
    using g cb ms
    by (simp add: buffer_add_message_def append_message_def st_def)
qed

text \<open>
  Claim C9. \<open>get_gemini_response\<close> leaves the session, and with it the turn list of the
  buffer and the message log, as it found them; its reply depends on the buffer only
  through \<open>get_context\<close>. The reply is recorded as a new turn by the chat round that
  called it, which also appends it to the message log: the user's entry with the time read
  at line 289, before the call, the assistant's entry with the time read at line 297, after
  it.
\<close>

theorem get_gemini_response_pure:
  "session_state (snd (get_gemini_response env cb prompt v w)) = session_state w
   \<and> (get_context cb' = get_context cb \<longrightarrow>
        fst (get_gemini_response env cb' prompt v w)
          = fst (get_gemini_response env cb prompt v w))
   \<and> (prompt \<noteq> []
       \<and> fst (get_gemini_response env
              (add_message (session_conversation_buffer (session_state w)) ''user'' prompt)
              prompt (session_vectorstore (session_state w)) w) = Inr reply \<longrightarrow>
        session_conversation_buffer
            (session_state (snd (chat_interface_prompt env prompt t1 t2 t3 t4 w)))
          = add_message
              (add_message (session_conversation_buffer (session_state w)) ''user'' prompt)
              ''assistant'' reply
        \<and> session_messages
            (session_state (snd (chat_interface_prompt env prompt t1 t2 t3 t4 w)))
          = session_messages (session_state w)
            @ [\<lparr>msg_role = ''user'', msg_content = prompt,
                msg_time = get_current_time env t2\<rparr>,
               \<lparr>msg_role = ''assistant'', msg_content = reply,
                msg_time = get_current_time env t4\<rparr>])"
  using get_gemini_response_session get_gemini_response_context chat_interface_prompt_records
  by blast

theorem get_gemini_response_pure_witness:
  "get_context (one_turn_buffer 3) = get_context (one_turn_buffer 5)
   \<and> one_turn_buffer 3 \<noteq> one_turn_buffer 5
   \<and> fst (get_gemini_response test_env (one_turn_buffer 3) ''hi'' None world0)
       = fst (get_gemini_response test_env (one_turn_buffer 5) ''hi'' None world0)
   \<and> session_state (snd (get_gemini_response test_env (one_turn_buffer 5) ''hi'' None world0))
       = session_state world0
   \<and> ''hi'' \<noteq> []
   \<and> fst (get_gemini_response test_env
            (add_message (session_conversation_buffer (session_state world0)) ''user'' ''hi'')
            ''hi'' (session_vectorstore (session_state world0)) world0) = Inr ''ok''
   \<and> buffer (session_conversation_buffer
        (session_state (snd (chat_interface_prompt test_env ''hi'' 58 59 60 61 world0))))
       = [\<lparr>role = ''user'', content = ''hi''\<rparr>, \<lparr>role = ''assistant'', content = ''ok''\<rparr>]
   \<and> session_messages
        (session_state (snd (chat_interface_prompt test_env ''hi'' 58 59 60 61 world0)))
       = [\<lparr>msg_role = ''user'', msg_content = ''hi'', msg_time = ''12:00''\<rparr>,
          \<lparr>msg_role = ''assistant'', msg_content = ''ok'', msg_time = ''12:01''\<rparr>]"
proof -
  have h1: "get_context (one_turn_buffer 3) = get_context (one_turn_buffer 5)"
    by (simp add: get_context_def one_turn_buffer_def)
  have h2: "one_turn_buffer 3 \<noteq> one_turn_buffer 5"
    by (simp add: one_turn_buffer_def)
  have h3: "fst (get_gemini_response test_env
            (add_message (session_conversation_buffer (session_state world0)) ''user'' ''hi'')
            ''hi'' (session_vectorstore (session_state world0)) world0) = Inr ''ok''"
    by (simp add: get_gemini_response_def full_context_def test_env_def world0_def Let_def)
  have h4: "add_message (add_message (session_conversation_buffer (session_state world0))
              ''user'' ''hi'') ''assistant'' ''ok''
            = \<lparr>buffer = [\<lparr>role = ''user'', content = ''hi''\<rparr>,
                         \<lparr>role = ''assistant'', content = ''ok''\<rparr>], max_turns = 5\<rparr>"
    by (simp add: world0_def ConversationBuffer_init_def default_max_turns_def
        add_message_def Let_def)
  have h5: "session_messages (session_state world0) = []"
    "get_current_time test_env 59 = ''12:00''" "get_current_time test_env 61 = ''12:01''"
    by (simp_all add: world0_def get_current_time_def test_env_def)
  note t = get_gemini_response_pure [of test_env "one_turn_buffer 5" "''hi''" None world0
      "one_turn_buffer 3" "''ok''" 58 59 60 61]
  from t h1 h2 h3 show ?thesis by (simp add: h4 h5)
qed

section \<open>Properties of the ingestion\<close>

subsection \<open>Copying the upload\<close>

declare read_chunks.simps [simp del]

declare build_index.simps [simp del]

declare batches.simps [simp del]

lemma read_chunks_Nil: "read_chunks n [] = []"
  by (subst read_chunks.simps) simp

lemma read_chunks_short: "bytes \<noteq> [] \<Longrightarrow> length bytes \<le> n \<Longrightarrow> read_chunks n bytes = [bytes]"
  by (subst read_chunks.simps) (simp add: read_chunks_Nil)

lemma concat_read_chunks: "0 < n \<Longrightarrow> concat (read_chunks n bytes) = bytes"
proof (induction n bytes rule: read_chunks.induct)
  case (1 n bytes)
  show ?case
  proof (cases "take n bytes = []")
    case True
    with 1(2) have "bytes = []" by (cases bytes) auto
    then show ?thesis by (simp add: read_chunks_Nil)
  next
    case False
    with 1 have "concat (read_chunks n (drop n bytes)) = drop n bytes" by simp
    with False show ?thesis by (subst read_chunks.simps) simp
  qed
qed

lemma temp_content: "concat (read_chunks chunk_size bytes) = bytes"
  by (rule concat_read_chunks) (simp add: chunk_size_def)

lemma write_chunks_frame:
  "session_state (snd (write_chunks env path cs w)) = session_state w
   \<and> files (snd (write_chunks env path cs w)) = files w
   \<and> clock (snd (write_chunks env path cs w)) = clock w"
  by (induction cs arbitrary: w) (auto simp: st_def split: option.splits)


lemma copy_to_temp_frame:
  "session_state (snd (copy_to_temp env file w)) = session_state w
   \<and> files (snd (copy_to_temp env file w)) = files w
   \<and> clock (snd (copy_to_temp env file w)) = clock w"
proof (cases "named_temporary_file env (snd (splitext (name file)))")
  case (Inl e)
  then show ?thesis by (simp add: copy_to_temp_def)
next
  case (Inr path)
  obtain r w' where wc: "write_chunks env path (read_chunks chunk_size (data file))
      (st (TempFileCreated path) w) = (r, w')"
    by fastforce
  have "session_state w' = session_state w \<and> files w' = files w \<and> clock w' = clock w"
    using write_chunks_frame[of env path "read_chunks chunk_size (data file)"
        "st (TempFileCreated path) w"] wc
    by (simp add: st_def)
  with Inr wc show ?thesis by (cases r) (simp_all add: copy_to_temp_def)
qed


subsection \<open>What process_document returns\<close>

lemma process_document_try_result:
  "fst (process_document_try env file w) =
     (case fst (copy_to_temp env file w) of
        Inl e \<Rightarrow> Inl e
      | Inr path \<Rightarrow>
          (case load_texts env (name file) (data file) of
             None \<Rightarrow> Inr None
           | Some (Inl e) \<Rightarrow> Inl e
           | Some (Inr texts) \<Rightarrow> index_texts env texts))"
  by (simp add: process_document_try_def temp_content split: prod.splits sum.splits option.splits)

lemma process_document_result:
  "fst (process_document env file w) =
     (if file_size file > MAX_FILE_SIZE then None
      else (case fst (process_document_try env file w) of Inr v \<Rightarrow> v | Inl e \<Rightarrow> None))"
  by (simp add: process_document_def split: prod.splits sum.splits exn.splits)

lemma remove_temp_frame:
  "session_state (remove_temp env p w) = session_state w
   \<and> files (remove_temp env p w) = files w \<and> clock (remove_temp env p w) = clock w"
  by (simp add: remove_temp_def st_def split: option.splits)

lemma process_document_try_frame:
  "session_state (snd (snd (process_document_try env file w))) = session_state w
   \<and> files (snd (snd (process_document_try env file w))) = files w
   \<and> clock (snd (snd (process_document_try env file w))) = clock w"
  using copy_to_temp_frame[of env "file" w]
  by (auto simp: process_document_try_def st_def split: prod.splits sum.splits option.splits)

lemma process_document_frame:
  "session_state (snd (process_document env file w)) = session_state w
   \<and> files (snd (process_document env file w)) = files w
   \<and> clock (snd (process_document env file w)) = clock w"
  using process_document_try_frame[of env "file" w]
  by (auto simp: process_document_def remove_temp_frame st_def
      split: prod.splits sum.splits exn.splits)

subsection \<open>The batched build\<close>

lemma batches_Nil: "batches [] = []"
  by (subst batches.simps) simp

lemma concat_batches: "concat (batches xs) = xs"
proof (induction xs rule: batches.induct)
  case (1 xs)
  show ?case
  proof (cases "xs = []")
    case True
    then show ?thesis by (simp add: batches_Nil)
  next
    case False
    with 1 have "concat (batches (drop batch_size xs)) = drop batch_size xs" by simp
    with False show ?thesis by (subst batches.simps) simp
  qed
qed

text \<open>The loop of the source is the declarative build over the batches from \<open>i\<close> on.\<close>

lemma build_index_batches:
  "build_index env split_texts i acc = insert_batches env acc (batches (drop i split_texts))"
proof (induction env split_texts i acc rule: build_index.induct)
  case (1 env split_texts i acc)
  show ?case
  proof (cases "i < length split_texts")
    case False
    then show ?thesis
      by (subst build_index.simps) (simp add: batches_Nil)
  next
    case True
    then have ne: "drop i split_texts \<noteq> []" by simp
    have b: "batches (drop i split_texts) =
        take batch_size (drop i split_texts) # batches (drop (i + batch_size) split_texts)"
      using ne by (subst batches.simps) (simp add: add.commute)
    show ?thesis
    proof (cases "case acc of None \<Rightarrow> from_texts env (take batch_size (drop i split_texts))
                  | Some v \<Rightarrow> add_texts env v (take batch_size (drop i split_texts))")
      case (Inl e)
      with True b show ?thesis by (subst build_index.simps) simp
    next
      case (Inr v')
      with True 1[OF True Inr] b show ?thesis by (subst build_index.simps) simp
    qed
  qed
qed

lemma insert_batches_append:
  "insert_batches env acc (bs1 @ bs2) =
     (case insert_batches env acc bs1 of
        Inl e \<Rightarrow> Inl e
      | Inr acc' \<Rightarrow> insert_batches env acc' bs2)"
  by (induction bs1 arbitrary: acc) (auto split: sum.splits)

lemma insert_batches_failure:
  assumes "insert_batches env acc bs1 = Inr acc'"
    and "(case acc' of None \<Rightarrow> from_texts env b | Some v \<Rightarrow> add_texts env v b) = Inl e"
  shows "insert_batches env acc (bs1 @ b # bs2) = Inl e"
  using assms by (simp add: insert_batches_append)

lemma index_texts_batches:
  "index_texts env texts =
     (case split_text env 1000 200 (join nl texts) of
        Inl e \<Rightarrow> Inl e
      | Inr chunks \<Rightarrow> insert_batches env None (batches chunks))"
  by (simp add: index_texts_def build_index_batches split: sum.splits)

lemma process_document_Some:
  assumes "fst (process_document env file w) = Some v"
  shows "\<exists>texts chunks. load_texts env (name file) (data file) = Some (Inr texts)
           \<and> split_text env 1000 200 (join nl texts) = Inr chunks
           \<and> insert_batches env None (batches chunks) = Inr (Some v)"
  using assms
  by (auto simp: process_document_result process_document_try_result index_texts_batches
      split: if_splits sum.splits option.splits)

subsection \<open>The upload handler\<close>

lemma chat_interface_upload_vectorstore:
  "session_vectorstore (session_state (snd (chat_interface_upload env (Some file) w))) =
     (if file_size file \<le> MAX_FILE_SIZE
         \<and> session_last_uploaded_file (session_state w) \<noteq> Some (name file)
      then (case fst (process_document env file w) of
              Some v \<Rightarrow> Some v
            | None \<Rightarrow> session_vectorstore (session_state w))
      else session_vectorstore (session_state w))"
proof -
  obtain r w1 where pd: "process_document env file w = (r, w1)" by fastforce
  have fr: "session_state w1 = session_state w"
    using process_document_frame[of env "file" w] pd by simp
  show ?thesis
    using pd fr
    by (auto simp: chat_interface_upload_def st_def save_vectorstore_def write_file_def
        set_vectorstore_def set_last_uploaded_file_def split: option.splits)
qed

lemma chat_interface_upload_failure:
  assumes "file_size up \<le> MAX_FILE_SIZE"
    and "session_last_uploaded_file (session_state w) \<noteq> Some (name up)"
    and "fst (process_document env up w) = None"
  shows "chat_interface_upload env (Some up) w =
     (None, st (StWarning ''Document processing failed. Please check the error message above.'')
              (snd (process_document env up w)))"
  using assms by (cases "process_document env up w") (simp add: chat_interface_upload_def)





subsection \<open>Evaluating the concrete collaborators\<close>

lemma batches_short: "xs \<noteq> [] \<Longrightarrow> length xs \<le> batch_size \<Longrightarrow> batches xs = [xs]"
  by (subst batches.simps) (simp add: batches_Nil)

lemma splitext_examples:
  "snd (splitext ''notes.txt'') = ''.txt''"
  "snd (splitext ''empty.txt'') = ''.txt''"
  "snd (splitext ''notes.md'') = ''.md''"
  by (simp_all add: splitext_def rfind_def Let_def)

lemma load_texts_examples:
  "load_texts env ''notes.txt'' bytes = Some (text_readlines env bytes)"
  "load_texts env ''empty.txt'' bytes = Some (text_readlines env bytes)"
  "load_texts env ''notes.md'' bytes = None"
  by (simp_all add: load_texts_def suffix_to_prefix)

lemma copy_to_temp_notes_txt:
  assumes "named_temporary_file env = named_temporary_file test_env"
    and "temp_write env = temp_write test_env"
  shows "copy_to_temp env notes_txt w =
     (Inr ''/tmp/upload.txt'',
      st (TempFileWrite ''/tmp/upload.txt'' ''loam holds water'')
        (st (TempFileCreated ''/tmp/upload.txt'') w))"
  using assms
  by (simp add: copy_to_temp_def notes_txt_def splitext_examples test_env_def
      read_chunks_short chunk_size_def)

lemma copy_to_temp_empty_txt:
  "copy_to_temp test_env empty_txt w =
     (Inr ''/tmp/upload.txt'', st (TempFileCreated ''/tmp/upload.txt'') w)"
  by (simp add: copy_to_temp_def empty_txt_def splitext_examples test_env_def read_chunks_Nil)




lemma file_size_examples:
  "file_size notes_txt \<le> MAX_FILE_SIZE" "file_size empty_txt \<le> MAX_FILE_SIZE"
  "file_size notes_md \<le> MAX_FILE_SIZE" "file_size big_pdf > MAX_FILE_SIZE"
  by (simp_all add: file_size_def MAX_FILE_SIZE_def notes_txt_def empty_txt_def notes_md_def
      big_pdf_def)

lemma world1_session:
  "session_vectorstore (session_state world1) = Some [''old chunk'']"
  "session_last_uploaded_file (session_state world1) = None"
  "effects world1 = []"
  by (simp_all add: world1_def world0_def set_vectorstore_def)

subsection \<open>The claims about the ingestion\<close>

text \<open>
  Claim C5. An error while parsing, while splitting or while embedding and building the
  index (in any batch) makes \<open>process_document\<close> return \<^verbatim>\<open>None\<close>; a returned index is the
  one built from every batch of the chunks. The upload handler leaves the active
  vectorstore as it is when \<^verbatim>\<open>None\<close> comes back, and replaces it only by an index that
  \<open>process_document\<close> returned.
\<close>

theorem ingestion_atomic:
  "(load_texts env (name up) (data up) = Some (Inl e) \<longrightarrow>
      fst (process_document env up w) = None)
   \<and> (load_texts env (name up) (data up) = Some (Inr texts)
       \<and> split_text env 1000 200 (join nl texts) = Inl e \<longrightarrow>
      fst (process_document env up w) = None)
   \<and> (load_texts env (name up) (data up) = Some (Inr texts)
       \<and> split_text env 1000 200 (join nl texts) = Inr chunks
       \<and> insert_batches env None (batches chunks) = Inl e \<longrightarrow>
      fst (process_document env up w) = None)
   \<and> (insert_batches env acc bs1 = Inr acc'
       \<and> (case acc' of None \<Rightarrow> from_texts env b | Some v' \<Rightarrow> add_texts env v' b) = Inl e \<longrightarrow>
      insert_batches env acc (bs1 @ b # bs2) = Inl e)
   \<and> (fst (process_document env up w) = Some v \<longrightarrow>
      (\<exists>texts' chunks'. load_texts env (name up) (data up) = Some (Inr texts')
          \<and> split_text env 1000 200 (join nl texts') = Inr chunks'
          \<and> build_index env chunks' 0 None = Inr (Some v)
          \<and> insert_batches env None (batches chunks') = Inr (Some v)
          \<and> concat (batches chunks') = chunks'))
   \<and> (fst (process_document env up w) = None \<longrightarrow>
      session_vectorstore (session_state (snd (chat_interface_upload env (Some up) w)))
        = session_vectorstore (session_state w))
   \<and> (session_vectorstore (session_state (snd (chat_interface_upload env (Some up) w)))
        \<noteq> session_vectorstore (session_state w) \<longrightarrow>
      (\<exists>v'. fst (process_document env up w) = Some v'
          \<and> session_vectorstore (session_state (snd (chat_interface_upload env (Some up) w)))
              = Some v'))
   \<and> (file_size up \<le> MAX_FILE_SIZE
       \<and> session_last_uploaded_file (session_state w) \<noteq> Some (name up)
       \<and> fst (process_document env up w) = Some v \<longrightarrow>
      session_vectorstore (session_state (snd (chat_interface_upload env (Some up) w)))
        = Some v)"
proof (intro conjI impI)
  show "fst (process_document env up w) = None"
    if "load_texts env (name up) (data up) = Some (Inl e)"
    using that
    by (simp add: process_document_result process_document_try_result split: sum.splits)
  show "fst (process_document env up w) = None"
    if "load_texts env (name up) (data up) = Some (Inr texts)
        \<and> split_text env 1000 200 (join nl texts) = Inl e"
    using that
    by (simp add: process_document_result process_document_try_result index_texts_batches
        split: sum.splits)
  show "fst (process_document env up w) = None"
    if "load_texts env (name up) (data up) = Some (Inr texts)
        \<and> split_text env 1000 200 (join nl texts) = Inr chunks
        \<and> insert_batches env None (batches chunks) = Inl e"
    using that
    by (simp add: process_document_result process_document_try_result index_texts_batches
        split: sum.splits)
  show "insert_batches env acc (bs1 @ b # bs2) = Inl e"
    if "insert_batches env acc bs1 = Inr acc'
        \<and> (case acc' of None \<Rightarrow> from_texts env b | Some v' \<Rightarrow> add_texts env v' b) = Inl e"
    using that insert_batches_failure by blast
  show "\<exists>texts' chunks'. load_texts env (name up) (data up) = Some (Inr texts')
          \<and> split_text env 1000 200 (join nl texts') = Inr chunks'
          \<and> build_index env chunks' 0 None = Inr (Some v)
          \<and> insert_batches env None (batches chunks') = Inr (Some v)
          \<and> concat (batches chunks') = chunks'"
    if "fst (process_document env up w) = Some v"
    using process_document_Some[OF that] by (auto simp: build_index_batches concat_batches)
  show "session_vectorstore (session_state (snd (chat_interface_upload env (Some up) w)))
        = session_vectorstore (session_state w)"
    if "fst (process_document env up w) = None"
    using that by (simp add: chat_interface_upload_vectorstore)
  show "\<exists>v'. fst (process_document env up w) = Some v'
          \<and> session_vectorstore (session_state (snd (chat_interface_upload env (Some up) w)))
              = Some v'"
    if "session_vectorstore (session_state (snd (chat_interface_upload env (Some up) w)))
        \<noteq> session_vectorstore (session_state w)"
    using that
    by (cases "fst (process_document env up w)")
       (auto simp: chat_interface_upload_vectorstore split: if_splits)
  show "session_vectorstore (session_state (snd (chat_interface_upload env (Some up) w)))
        = Some v"
    if "file_size up \<le> MAX_FILE_SIZE
       \<and> session_last_uploaded_file (session_state w) \<noteq> Some (name up)
       \<and> fst (process_document env up w) = Some v"
    using that by (simp add: chat_interface_upload_vectorstore)
qed

theorem ingestion_atomic_witness:
  "load_texts failing_parse_env (name notes_txt) (data notes_txt)
       = Some (Inl (Exception ''cannot decode''))
   \<and> fst (process_document failing_parse_env notes_txt world1) = None
   \<and> split_text failing_split_env 1000 200 (join nl [''loam holds water''])
       = Inl (Exception ''splitter failed'')
   \<and> fst (process_document failing_split_env notes_txt world1) = None
   \<and> insert_batches failing_embed_env None (batches [''loam holds water''])
       = Inl (Exception ''embedding backend unavailable'')
   \<and> fst (process_document failing_embed_env notes_txt world1) = None
   \<and> session_vectorstore
        (session_state (snd (chat_interface_upload failing_embed_env (Some notes_txt) world1)))
       = Some [''old chunk'']
   \<and> fst (process_document test_env notes_txt world1) = Some [''loam holds water'']
   \<and> session_vectorstore
        (session_state (snd (chat_interface_upload test_env (Some notes_txt) world1)))
       = Some [''loam holds water'']"
proof -
  have b: "batches [''loam holds water''] = [[''loam holds water'']]"
    by (simp add: batches_short batch_size_def)
  have p1: "load_texts failing_parse_env (name notes_txt) (data notes_txt)
       = Some (Inl (Exception ''cannot decode''))"
    by (simp add: notes_txt_def load_texts_examples failing_parse_env_def)
  have l2: "load_texts failing_split_env (name notes_txt) (data notes_txt)
       = Some (Inr [''loam holds water''])"
    by (simp add: notes_txt_def load_texts_examples failing_split_env_def test_env_def)
  have s2: "split_text failing_split_env 1000 200 (join nl [''loam holds water''])
       = Inl (Exception ''splitter failed'')"
    by (simp add: failing_split_env_def)
  have l3: "load_texts failing_embed_env (name notes_txt) (data notes_txt)
       = Some (Inr [''loam holds water''])"
    by (simp add: notes_txt_def load_texts_examples failing_embed_env_def test_env_def)
  have s3: "split_text failing_embed_env 1000 200 (join nl [''loam holds water''])
       = Inr [''loam holds water'']"
    by (simp add: failing_embed_env_def test_env_def)
  have i3: "insert_batches failing_embed_env None (batches [''loam holds water''])
       = Inl (Exception ''embedding backend unavailable'')"
    by (simp add: b failing_embed_env_def)
  have l4: "load_texts test_env (name notes_txt) (data notes_txt)
       = Some (Inr [''loam holds water''])"
    by (simp add: notes_txt_def load_texts_examples test_env_def)
  have s4: "split_text test_env 1000 200 (join nl [''loam holds water''])
       = Inr [''loam holds water'']"
    by (simp add: test_env_def)
  have i4: "insert_batches test_env None (batches [''loam holds water''])
       = Inr (Some [''loam holds water''])"
    by (simp add: b test_env_def)
  have c4: "fst (copy_to_temp test_env notes_txt world1) = Inr ''/tmp/upload.txt''"
    by (simp add: copy_to_temp_notes_txt)
  have r4: "fst (process_document test_env notes_txt world1) = Some [''loam holds water'']"
    using file_size_examples(1) l4 s4 i4 c4
    by (simp add: process_document_result process_document_try_result index_texts_batches)
  have n: "session_last_uploaded_file (session_state world1) \<noteq> Some (name notes_txt)"
    by (simp add: world1_session)
  note t1 = ingestion_atomic [where env = failing_parse_env and up = notes_txt and w = world1
      and e = "Exception ''cannot decode''"]
  note t2 = ingestion_atomic [where env = failing_split_env and up = notes_txt and w = world1
      and e = "Exception ''splitter failed''" and texts = "[''loam holds water'']"]
  note t3 = ingestion_atomic [where env = failing_embed_env and up = notes_txt and w = world1
      and e = "Exception ''embedding backend unavailable''"
      and texts = "[''loam holds water'']" and chunks = "[''loam holds water'']"]
  note t4 = ingestion_atomic [where env = test_env and up = notes_txt and w = world1
      and v = "[''loam holds water'']"]
  have a1: "fst (process_document failing_parse_env notes_txt world1) = None"
    using t1 p1 by blast
  have a2: "fst (process_document failing_split_env notes_txt world1) = None"
    using t2 l2 s2 by blast
  have a3: "fst (process_document failing_embed_env notes_txt world1) = None"
    using t3 l3 s3 i3 by blast
  have a4: "session_vectorstore
        (session_state (snd (chat_interface_upload failing_embed_env (Some notes_txt) world1)))
       = session_vectorstore (session_state world1)"
    using t3 a3 by blast
  have a5: "session_vectorstore
        (session_state (snd (chat_interface_upload test_env (Some notes_txt) world1)))
       = Some [''loam holds water'']"
    using t4 r4 n file_size_examples(1) by blast
  from p1 a1 s2 a2 i3 a3 a4 r4 a5 show ?thesis by (simp add: world1_session)
qed




text \<open>
  Claim C10. When the text of a supported upload yields no chunk, the loop over the
  batches does not run, the vectorstore stays \<^verbatim>\<open>None\<close> and that is what \<open>process_document\<close>
  returns, as after a failure: the handler warns that processing failed and keeps the
  vectorstore and the name of the last processed file.
\<close>

theorem zero_chunks_returns_None:
  "load_texts env (name up) (data up) = Some (Inr texts)
   \<and> split_text env 1000 200 (join nl texts) = Inr [] \<longrightarrow>
     fst (process_document env up w) = None
     \<and> session_state (snd (chat_interface_upload env (Some up) w)) = session_state w
     \<and> (file_size up \<le> MAX_FILE_SIZE
         \<and> session_last_uploaded_file (session_state w) \<noteq> Some (name up) \<longrightarrow>
        last (effects (snd (chat_interface_upload env (Some up) w)))
          = StWarning ''Document processing failed. Please check the error message above.'')"
proof (intro impI)
  assume a: "load_texts env (name up) (data up) = Some (Inr texts)
   \<and> split_text env 1000 200 (join nl texts) = Inr []"
  have n: "fst (process_document env up w) = None"
    using a
    by (simp add: process_document_result process_document_try_result index_texts_batches
        batches_Nil split: sum.splits)
  have s: "session_state (snd (chat_interface_upload env (Some up) w)) = session_state w"
  proof (cases "file_size up \<le> MAX_FILE_SIZE
         \<and> session_last_uploaded_file (session_state w) \<noteq> Some (name up)")
    case True
    then show ?thesis
      using chat_interface_upload_failure[of up w env] n process_document_frame[of env up w]
      by (simp add: st_def)
  next
    case False
    then show ?thesis by (auto simp: chat_interface_upload_def st_def)
  qed
  have e: "last (effects (snd (chat_interface_upload env (Some up) w)))
          = StWarning ''Document processing failed. Please check the error message above.''"
    if "file_size up \<le> MAX_FILE_SIZE
         \<and> session_last_uploaded_file (session_state w) \<noteq> Some (name up)"
    using that chat_interface_upload_failure[of up w env] n by (simp add: st_def)
  from n s e show "fst (process_document env up w) = None
     \<and> session_state (snd (chat_interface_upload env (Some up) w)) = session_state w
     \<and> (file_size up \<le> MAX_FILE_SIZE
         \<and> session_last_uploaded_file (session_state w) \<noteq> Some (name up) \<longrightarrow>
        last (effects (snd (chat_interface_upload env (Some up) w)))
          = StWarning ''Document processing failed. Please check the error message above.'')"
    by blast
qed

theorem zero_chunks_returns_None_witness:
  "load_texts test_env (name empty_txt) (data empty_txt) = Some (Inr [[]])
   \<and> split_text test_env 1000 200 (join nl [[]]) = Inr []
   \<and> file_size empty_txt \<le> MAX_FILE_SIZE
   \<and> session_last_uploaded_file (session_state world1) \<noteq> Some (name empty_txt)
   \<and> fst (process_document test_env empty_txt world1) = None
   \<and> session_vectorstore
        (session_state (snd (chat_interface_upload test_env (Some empty_txt) world1)))
       = Some [''old chunk'']
   \<and> last (effects (snd (chat_interface_upload test_env (Some empty_txt) world1)))
       = StWarning ''Document processing failed. Please check the error message above.''"
proof -
  have l: "load_texts test_env (name empty_txt) (data empty_txt) = Some (Inr [[]])"
    by (simp add: empty_txt_def load_texts_examples test_env_def)
  have s: "split_text test_env 1000 200 (join nl [[]]) = Inr []"
    by (simp add: test_env_def)
  have n: "session_last_uploaded_file (session_state world1) \<noteq> Some (name empty_txt)"
    by (simp add: world1_session)
  note t = zero_chunks_returns_None [where env = test_env and up = empty_txt and w = world1
      and texts = "[[]]"]
  from t l s n file_size_examples(2) show ?thesis
    using world1_session(1) by simp
qed

section \<open>Properties of the housekeeping sweep\<close>

lemma cleanup_loop_filter:
  "cleanup_loop now m xs fs =
     filter (\<lambda>entry. fst entry \<notin> fst ` set (filter (swept now m) xs)) fs"
proof (induction xs arbitrary: fs)
  case Nil
  then show ?case by simp
next
  case (Cons x xs)
  obtain filename ctime where x: "x = (filename, ctime)" by (cases x)
  show ?case
  proof (cases "swept now m x")
    case True
    then have "cleanup_loop now m (x # xs) fs = cleanup_loop now m xs (os_remove filename fs)"
      by (simp add: x swept_def)
    also have "\<dots> = filter (\<lambda>entry. fst entry \<notin> fst ` set (filter (swept now m) xs))
        (filter (\<lambda>entry. fst entry \<noteq> filename) fs)"
      by (simp add: Cons.IH os_remove_def case_prod_unfold)
    also have "\<dots> = filter (\<lambda>entry. fst entry \<notin> fst ` set (filter (swept now m) (x # xs))) fs"
      using True by (auto simp: x intro: filter_cong)
    finally show ?thesis .
  next
    case False
    then have "cleanup_loop now m (x # xs) fs = cleanup_loop now m xs fs"
      by (auto simp: x swept_def)
    with False show ?thesis by (simp add: Cons.IH)
  qed
qed

text \<open>
  In a directory (whose names are distinct) the sweep removes exactly the files whose name
  starts with \<open>vectorstore_\<close> and ends with \<open>.pkl\<close> and whose age in whole days exceeds
  \<open>max_age_days\<close>.
\<close>

lemma cleanup_old_vectorstores_files:
  assumes "distinct (map fst (files w))"
  shows "files (cleanup_old_vectorstores m w) =
         filter (\<lambda>entry. \<not> swept (clock w) m entry) (files w)"
proof -
  have "fst entry \<in> fst ` set (filter (swept (clock w) m) (files w))
          \<longleftrightarrow> swept (clock w) m entry"
    if "entry \<in> set (files w)" for entry
  proof
    assume "fst entry \<in> fst ` set (filter (swept (clock w) m) (files w))"
    then obtain entry' where e: "entry' \<in> set (files w)" "swept (clock w) m entry'"
      "fst entry' = fst entry"
      by auto
    have "entry' = entry"
      using assms e(1,3) that by (metis eq_key_imp_eq_value prod.collapse)
    with e show "swept (clock w) m entry" by simp
  next
    assume "swept (clock w) m entry"
    with that show "fst entry \<in> fst ` set (filter (swept (clock w) m) (files w))" by auto
  qed
  then have "filter (\<lambda>entry. fst entry \<notin> fst ` set (filter (swept (clock w) m) (files w)))
          (files w)
        = filter (\<lambda>entry. \<not> swept (clock w) m entry) (files w)"
    by (intro filter_cong) simp_all
  then show ?thesis
    by (simp add: cleanup_old_vectorstores_def cleanup_loop_filter)
qed

lemma not_swept_within_threshold: "days (now - snd entry) \<le> m \<Longrightarrow> \<not> swept now m entry"
  by (simp add: swept_def)

lemma vectorstore_pkl_never_swept: "\<not> swept now m (vectorstore_pkl, t)"
  by (simp add: swept_def vectorstore_pkl_def)

text \<open>
  Claim C8. The file that \<open>save_vectorstore\<close> writes is \<open>vectorstore.pkl\<close>; the sweep only
  looks at names that start with \<open>vectorstore_\<close>, so ten days later, with the default
  threshold of two days, the file is still there. A file that the sweep does look at
  is kept when it is older than two days but not yet three (the age is cut to whole days),
  and removed from three days on.
\<close>

theorem cleanup_keeps_saved_vectorstore:
  "files saved_world = [(''vectorstore.pkl'', 0)]
   \<and> files (cleanup_old_vectorstores default_max_age_days (later (10 * day) saved_world))
       = [(''vectorstore.pkl'', 0)]
   \<and> files (cleanup_old_vectorstores default_max_age_days (later (3 * day - 1) old_index_world))
       = [(''vectorstore_old.pkl'', 0)]
   \<and> files (cleanup_old_vectorstores default_max_age_days (later (3 * day) old_index_world))
       = []"
proof (intro conjI)
  show s: "files saved_world = [(''vectorstore.pkl'', 0)]"
    by (simp add: saved_world_def save_vectorstore_def write_file_def world0_def
        vectorstore_pkl_def)
  show "files (cleanup_old_vectorstores default_max_age_days (later (10 * day) saved_world))
       = [(''vectorstore.pkl'', 0)]"
    by (simp add: cleanup_old_vectorstores_def later_def s)
  show "files (cleanup_old_vectorstores default_max_age_days (later (3 * day - 1) old_index_world))
       = [(''vectorstore_old.pkl'', 0)]"
    by (simp add: cleanup_old_vectorstores_def later_def old_index_world_def world0_def
        suffix_to_prefix days_def day_def default_max_age_days_def)
  show "files (cleanup_old_vectorstores default_max_age_days (later (3 * day) old_index_world))
       = []"
    by (simp add: cleanup_old_vectorstores_def later_def old_index_world_def world0_def
        suffix_to_prefix days_def day_def default_max_age_days_def os_remove_def)
qed

end
